theory Spec2Isabelle
  imports Complex_Main
begin

section \<open>Values of the host language\<close>

text \<open>
  The two functions of the package take and return values of type \<open>any\<close>. The type
  \<open>jsval\<close> holds the values that are immutable data: the primitives, arrays, and objects
  and function objects with their own data properties. A function object is given by its
  properties only: calling it does nothing and returns \<open>undefined\<close>. Objects whose
  property reads run code (an accessor property, a proxy) are added to these in the type
  \<open>anyval\<close> below.
\<close>

datatype jsnumber = Finite rat | NegZero | NaN | PosInfinity | NegInfinity

datatype jsval =
    JUndefined
  | JNull
  | JBoolean bool
  | JNumber jsnumber
  | JBigInt int
  | JString string
  | JSymbol string
  | JArray "jsval list"
  | JObject "(string \<times> jsval) list"
  | JFunction "(string \<times> jsval) list"

text \<open>What a call can throw: the engine's TypeError, or any value a callee throws.\<close>

datatype fault = TypeError | Thrown jsval

text \<open>ToBoolean: the falsy values are undefined, null, false, +0, -0, NaN, 0n and the
  empty string.\<close>

fun to_boolean :: "jsval \<Rightarrow> bool" where
  "to_boolean JUndefined = False"
| "to_boolean JNull = False"
| "to_boolean (JBoolean b) = b"
| "to_boolean (JNumber (Finite q)) = (q \<noteq> 0)"
| "to_boolean (JNumber NegZero) = False"
| "to_boolean (JNumber NaN) = False"
| "to_boolean (JNumber PosInfinity) = True"
| "to_boolean (JNumber NegInfinity) = True"
| "to_boolean (JBigInt i) = (i \<noteq> 0)"
| "to_boolean (JString s) = (s \<noteq> [])"
| "to_boolean (JSymbol s) = True"
| "to_boolean (JArray xs) = True"
| "to_boolean (JObject ps) = True"
| "to_boolean (JFunction ps) = True"

text \<open>The own data property \<open>k\<close> of a value, for a key \<open>k\<close> that is neither an
  array index nor the name of a built-in property (neither key this package reads is
  one). Primitives and arrays have no such property.\<close>

fun own_property :: "jsval \<Rightarrow> string \<Rightarrow> jsval option" where
  "own_property (JObject ps) k = map_of ps k"
| "own_property (JFunction ps) k = map_of ps k"
| "own_property v k = None"

text \<open>The member expression \<open>v.k\<close>: reading a property of undefined or null throws a
  TypeError; a missing property reads as undefined.\<close>

fun get_prop :: "jsval \<Rightarrow> string \<Rightarrow> fault + jsval" where
  "get_prop JUndefined k = Inl TypeError"
| "get_prop JNull k = Inl TypeError"
| "get_prop v k = (case own_property v k of None \<Rightarrow> Inr JUndefined | Some x \<Rightarrow> Inr x)"

text \<open>\<open>v === true\<close>: strict equality with the literal \<open>true\<close> holds for the
  Boolean \<open>true\<close> alone (no coercion of the left operand).\<close>

fun strict_equals_true :: "jsval \<Rightarrow> bool" where
  "strict_equals_true (JBoolean b) = b"
| "strict_equals_true v = False"

section \<open>validation-error.ts\<close>

text \<open>
  \<^verbatim>\<open>
  export function isValidationError(obj: any): obj is ValidationError {
      return obj && obj.isValidationError === true;
  }
  \<close>
  The operator \<open>&&\<close> yields its left operand when that is falsy, and only otherwise
  evaluates and yields its right operand.
\<close>

definition isValidationError :: "jsval \<Rightarrow> fault + jsval" where
  "isValidationError obj =
     (if to_boolean obj
      then (case get_prop obj ''isValidationError'' of
              Inl e \<Rightarrow> Inl e
            | Inr v \<Rightarrow> Inr (JBoolean (strict_equals_true v)))
      else Inr obj)"

text \<open>
  A value of type \<open>any\<close> is data, or an exotic object: one whose property reads are
  not reads of own data properties, as with an accessor property (a getter), a proxy's
  \<open>get\<close> trap or an inherited property. Such an object is given by what a read of the
  property \<open>k\<close> does in a world of type \<open>'s\<close> (everything the running code can read or
  write): it yields a value or throws, and leaves a world. Every object is truthy.
\<close>

datatype 's anyval =
    Data jsval
  | Exotic "string \<Rightarrow> 's \<Rightarrow> (fault + jsval) \<times> 's"

fun to_boolean_any :: "'s anyval \<Rightarrow> bool" where
  "to_boolean_any (Data v) = to_boolean v"
| "to_boolean_any (Exotic t) = True"

fun read_property :: "'s anyval \<Rightarrow> string \<Rightarrow> 's \<Rightarrow> (fault + jsval) \<times> 's" where
  "read_property (Data v) k s = (get_prop v k, s)"
| "read_property (Exotic t) k s = t k s"

text \<open>A call \<open>isValidationError(obj)\<close> on any value, in a world: the same body, with the
  world passed through the one property read it makes.\<close>

definition call_isValidationError :: "'s anyval \<Rightarrow> 's \<Rightarrow> (fault + 's anyval) \<times> 's" where
  "call_isValidationError obj s =
     (if to_boolean_any obj
      then (case read_property obj ''isValidationError'' s of
              (Inl e, s') \<Rightarrow> (Inl e, s')
            | (Inr v, s') \<Rightarrow> (Inr (Data (JBoolean (strict_equals_true v))), s'))
      else (Inr obj, s))"


text \<open>Two exotic objects.
  \<^verbatim>\<open>{ get isValidationError() { throw "boom"; } }\<close>
  and, in a world that is a counter \<open>n\<close>,
  \<^verbatim>\<open>{ get isValidationError() { return n++ % 2 === 0; } }\<close>\<close>

definition throwingGetter :: "'s anyval" where
  "throwingGetter = Exotic (\<lambda>k s. (Inl (Thrown (JString ''boom'')), s))"

definition countingGetter :: "nat anyval" where
  "countingGetter = Exotic (\<lambda>k n. (Inr (JBoolean (even n)), Suc n))"

text \<open>The type the package declares for its error value:
  \<^verbatim>\<open>
  export type ValidationError = {
      isValidationError: boolean;
      errors: ZodIssue[];
  }
  \<close>
  as a predicate on values (an issue is a value of the validator's, kept opaque).\<close>

fun is_boolean :: "jsval \<Rightarrow> bool" where
  "is_boolean (JBoolean b) = True"
| "is_boolean v = False"

fun is_array :: "jsval \<Rightarrow> bool" where
  "is_array (JArray xs) = True"
| "is_array v = False"

definition has_type_ValidationError :: "jsval \<Rightarrow> bool" where
  "has_type_ValidationError v =
     ((case own_property v ''isValidationError'' of None \<Rightarrow> False | Some b \<Rightarrow> is_boolean b) \<and>
      (case own_property v ''errors'' of None \<Rightarrow> False | Some es \<Rightarrow> is_array es))"

text \<open>The spec's words for the values the predicate is to accept: a value that is neither
  null nor absent and whose \<open>isValidationError\<close> attribute is present and is the Boolean
  \<open>true\<close>.\<close>

definition tagged_as_validation_error :: "jsval \<Rightarrow> bool" where
  "tagged_as_validation_error v =
     (v \<noteq> JNull \<and> v \<noteq> JUndefined \<and> own_property v ''isValidationError'' = Some (JBoolean True))"

section \<open>with-validation.ts\<close>

text \<open>
  The validator is the external library's: \<open>schema.safeParse(data)\<close> returns
  \<open>{ success: true, data }\<close> or \<open>{ success: false, error }\<close>, where \<open>error.errors\<close>
  is the array of issues, or it throws. The schema and the target are the caller's
  callables, so each takes the world and returns it, changed as it likes.
\<close>

datatype ZodError = ZodError (errors: "jsval list")

datatype SafeParseReturnType =
    SafeParseSuccess (data: jsval)
  | SafeParseError (error: ZodError)

record 's ZodSchema =
  safeParse :: "jsval \<Rightarrow> 's \<Rightarrow> (fault + SafeParseReturnType) \<times> 's"

text \<open>A promise is modelled by how it settles, if it ever does.\<close>

datatype settlement = Fulfilled jsval | Rejected fault | Pending

text \<open>What a callable hands back: a value of the data model, or a promise (or any other
  thenable whose \<open>then\<close> does something), given by how it settles; or it throws.\<close>

datatype retval = Plain jsval | Promise settlement

datatype completion = Return retval | Throw fault

type_synonym 's target = "jsval \<Rightarrow> 's \<Rightarrow> completion \<times> 's"

text \<open>The world of a call of the wrapped operation: the caller's world \<open>st\<close>, and a
  ghost log \<open>calls\<close> of the arguments the target was invoked with, which no callee
  can read or write.\<close>

record 's world =
  calls :: "jsval list"
  st :: 's

text \<open>The call expression \<open>func(d)\<close>: runs the target on the caller's world and logs
  the invocation.\<close>

definition invoke :: "'s target \<Rightarrow> jsval \<Rightarrow> 's world \<Rightarrow> completion \<times> 's world" where
  "invoke func d w =
     (case func d (st w) of (r, s') \<Rightarrow> (r, \<lparr>calls = calls w @ [d], st = s'\<rparr>))"

text \<open>A thenable is an object with a callable \<open>then\<close> property.\<close>

definition is_thenable :: "jsval \<Rightarrow> bool" where
  "is_thenable v = (case own_property v ''then'' of Some (JFunction ps) \<Rightarrow> True | _ \<Rightarrow> False)"

text \<open>An \<open>async\<close> function always returns a promise. A fault thrown in the body rejects
  it and a returned promise is adopted. A returned value that is not a thenable fulfils
  it; on a returned thenable the promise waits for the call of its \<open>then\<close> to settle it,
  and the functions of the data model do nothing when called, so it is never settled.\<close>

fun resolve :: "completion \<Rightarrow> settlement" where
  "resolve (Return (Plain v)) = (if is_thenable v then Pending else Fulfilled v)"
| "resolve (Return (Promise p)) = p"
| "resolve (Throw e) = Rejected e"

definition async :: "('w \<Rightarrow> completion \<times> 'w) \<Rightarrow> 'w \<Rightarrow> completion \<times> 'w" where
  "async body w = (case body w of (c, w') \<Rightarrow> (Return (Promise (resolve c)), w'))"

text \<open>
  \<^verbatim>\<open>
  return (async (data: any) => {
      const zodValidationResult = schema.safeParse(data);
      if (!zodValidationResult.success) {
          return <ValidationError>{
              isValidationError: true,
              errors: zodValidationResult.error.errors
          };
      }
      return func(zodValidationResult.data);
  }) as F;
  \<close>
\<close>

definition withValidation ::
  "'s ZodSchema \<Rightarrow> 's target \<Rightarrow> jsval \<Rightarrow> 's world \<Rightarrow> completion \<times> 's world" where
  "withValidation schema func x =
     async (\<lambda>w.
       case safeParse schema x (st w) of
         (Inl e, s1) \<Rightarrow> (Throw e, w\<lparr>st := s1\<rparr>)
       | (Inr zodValidationResult, s1) \<Rightarrow>
           (case zodValidationResult of
              SafeParseError err \<Rightarrow>
                (Return (Plain (JObject [(''isValidationError'', JBoolean True),
                                         (''errors'', JArray (errors err))])),
                 w\<lparr>st := s1\<rparr>)
            | SafeParseSuccess d \<Rightarrow> invoke func d (w\<lparr>st := s1\<rparr>)))"

subsection \<open>The example of the README\<close>

text \<open>
  \<^verbatim>\<open>
  const myServerActionSchema = z.object({ name: z.string().min(4) });
  export const myServerAction = withValidation(myServerActionSchema,
    async (data: { name: string }) => { console.log(data); return true; });
  \<close>
  The world of the example is the console: the list of the values logged.
\<close>

definition issue :: "string \<Rightarrow> jsval" where
  "issue msg = JObject [(''path'', JArray [JString ''name'']), (''message'', JString msg)]"

definition myServerActionSchema :: "(jsval list) ZodSchema" where
  "myServerActionSchema =
     \<lparr>safeParse = (\<lambda>x s.
        (case own_property x ''name'' of
           Some (JString n) \<Rightarrow>
             if 4 \<le> length n
             then Inr (SafeParseSuccess (JObject [(''name'', JString n)]))
             else Inr (SafeParseError
                    (ZodError [issue ''String must contain at least 4 character(s)'']))
         | _ \<Rightarrow> Inr (SafeParseError (ZodError [issue ''Required''])), s))\<rparr>"

definition myServerActionBody :: "(jsval list) target" where
  "myServerActionBody d s = (Return (Promise (Fulfilled (JBoolean True))), s @ [d])"

text \<open>Three synchronous targets: one logs and returns its argument, one throws, one
  returns a thenable.
  \<^verbatim>\<open>
  (data) => { console.log(data); return data; }
  (data) => { throw "failed"; }
  (data) => ({ then: function () {} })
  \<close>\<close>

definition echoAction :: "(jsval list) target" where
  "echoAction d s = (Return (Plain d), s @ [d])"

definition failingAction :: "(jsval list) target" where
  "failingAction d s = (Throw (Thrown (JString ''failed'')), s)"

definition thenableAction :: "(jsval list) target" where
  "thenableAction d s = (Return (Plain (JObject [(''then'', JFunction [])])), s)"

text \<open>A schema whose check throws whatever it is given (a validator that malfunctions).\<close>

definition brokenSchema :: "fault \<Rightarrow> 's ZodSchema" where
  "brokenSchema e = \<lparr>safeParse = (\<lambda>x s. (Inl e, s))\<rparr>"

section \<open>Properties of the value model and of the two functions\<close>

lemma get_prop_truthy:
  "to_boolean v \<Longrightarrow>
   get_prop v k = (case own_property v k of None \<Rightarrow> Inr JUndefined | Some x \<Rightarrow> Inr x)"
  by (cases v) simp_all

lemma strict_equals_true_iff: "strict_equals_true v \<longleftrightarrow> v = JBoolean True"
  by (cases v) simp_all

lemma isValidationError_falsy: "\<not> to_boolean v \<Longrightarrow> isValidationError v = Inr v"
  by (simp add: isValidationError_def)

lemma isValidationError_truthy:
  "to_boolean v \<Longrightarrow>
   isValidationError v = Inr (JBoolean (own_property v ''isValidationError'' = Some (JBoolean True)))"
  by (simp add: isValidationError_def get_prop_truthy strict_equals_true_iff split: option.split)

lemma isValidationError_total: "\<exists>r. isValidationError v = Inr r"
  by (cases "to_boolean v") (simp_all add: isValidationError_falsy isValidationError_truthy)

lemma isValidationError_true_iff:
  "isValidationError v = Inr (JBoolean True) \<longleftrightarrow> tagged_as_validation_error v"
proof (cases "to_boolean v")
  case True
  then have "v \<noteq> JNull" "v \<noteq> JUndefined" by auto
  with True show ?thesis
    by (simp add: isValidationError_truthy tagged_as_validation_error_def)
next
  case False
  then have "own_property v ''isValidationError'' = None" by (cases v) simp_all
  moreover from False have "v \<noteq> JBoolean True" by auto
  ultimately show ?thesis using False
    by (simp add: isValidationError_falsy tagged_as_validation_error_def)
qed

lemma isValidationError_truthy_result:
  "isValidationError v = Inr r \<Longrightarrow> to_boolean r \<longleftrightarrow> tagged_as_validation_error v"
proof (cases "to_boolean v")
  case True
  assume "isValidationError v = Inr r"
  with True have "r = JBoolean (own_property v ''isValidationError'' = Some (JBoolean True))"
    by (simp add: isValidationError_truthy)
  moreover from True have "v \<noteq> JNull" "v \<noteq> JUndefined" by auto
  ultimately show ?thesis by (simp add: tagged_as_validation_error_def)
next
  case False
  assume "isValidationError v = Inr r"
  with False have "r = v" by (simp add: isValidationError_falsy)
  moreover from False have "own_property v ''isValidationError'' = None" by (cases v) simp_all
  ultimately show ?thesis using False by (simp add: tagged_as_validation_error_def)
qed

lemma call_isValidationError_Data:
  "call_isValidationError (Data v) s = (map_sum id Data (isValidationError v), s)"
  by (simp add: call_isValidationError_def isValidationError_def split: sum.split)

lemma call_isValidationError_Exotic:
  "call_isValidationError (Exotic t) s =
     (case t ''isValidationError'' s of
        (Inl e, s') \<Rightarrow> (Inl e, s')
      | (Inr v, s') \<Rightarrow> (Inr (Data (JBoolean (strict_equals_true v))), s'))"
  by (simp add: call_isValidationError_def)


lemma withValidation_failure:
  "safeParse schema x (st w) = (Inr (SafeParseError err), s1) \<Longrightarrow>
   withValidation schema func x w =
     (Return (Promise (Fulfilled (JObject [(''isValidationError'', JBoolean True),
                                           (''errors'', JArray (errors err))]))),
      \<lparr>calls = calls w, st = s1\<rparr>)"
  by (simp add: withValidation_def async_def is_thenable_def)

lemma withValidation_success:
  "safeParse schema x (st w) = (Inr (SafeParseSuccess d), s1) \<Longrightarrow> func d s1 = (r, s2) \<Longrightarrow>
   withValidation schema func x w =
     (Return (Promise (resolve r)), \<lparr>calls = calls w @ [d], st = s2\<rparr>)"
  by (simp add: withValidation_def async_def invoke_def)

lemma withValidation_fault:
  "safeParse schema x (st w) = (Inl e, s1) \<Longrightarrow>
   withValidation schema func x w =
     (Return (Promise (Rejected e)), \<lparr>calls = calls w, st = s1\<rparr>)"
  by (simp add: withValidation_def async_def)

lemma map_of_filter_key: "map_of (filter (\<lambda>p. fst p = k) ps) k = map_of ps k"
  by (induction ps) auto

section \<open>The specification's claims\<close>

text \<open>
  C1. When the validator reports a failure with the issues \<open>issues\<close> for the input
  \<open>x\<close>, the wrapped operation does not invoke the target (the log of invocations and the
  world the validator left are unchanged, whatever the target is), and its promise is
  fulfilled with a value \<open>v\<close> such that \<open>v.isValidationError\<close> is \<open>true\<close> and
  \<open>v.errors\<close> is the array of exactly those issues, in their order.
\<close>

theorem withValidation_invalid_input:
  assumes "safeParse schema x (st w) = (Inr (SafeParseError (ZodError issues)), s1)"
  shows "\<exists>v. withValidation schema func x w =
               (Return (Promise (Fulfilled v)), \<lparr>calls = calls w, st = s1\<rparr>) \<and>
             get_prop v ''isValidationError'' = Inr (JBoolean True) \<and>
             get_prop v ''errors'' = Inr (JArray issues)"
  using withValidation_failure [OF assms, of func] by simp

theorem withValidation_invalid_input_witness:
  "safeParse myServerActionSchema (JObject [(''name'', JString ''abc'')])
       (st \<lparr>calls = [], st = []\<rparr>) =
     (Inr (SafeParseError
        (ZodError [issue ''String must contain at least 4 character(s)''])), []) \<and>
   (\<exists>v. withValidation myServerActionSchema myServerActionBody
           (JObject [(''name'', JString ''abc'')]) \<lparr>calls = [], st = []\<rparr> =
           (Return (Promise (Fulfilled v)), \<lparr>calls = [], st = []\<rparr>) \<and>
        get_prop v ''isValidationError'' = Inr (JBoolean True) \<and>
        get_prop v ''errors'' =
          Inr (JArray [issue ''String must contain at least 4 character(s)'']))"
proof -
  have h: "safeParse myServerActionSchema (JObject [(''name'', JString ''abc'')])
       (st \<lparr>calls = [], st = []\<rparr>) =
     (Inr (SafeParseError
        (ZodError [issue ''String must contain at least 4 character(s)''])), [])"
    by (simp add: myServerActionSchema_def)
  show ?thesis
    using h withValidation_invalid_input [OF h, of myServerActionBody] by simp
qed

text \<open>
  C2. When the validator accepts the input \<open>x\<close> with the validated output \<open>d\<close>, the
  wrapped operation invokes the target exactly once, on \<open>d\<close> (one entry is added to the
  log of invocations, and the world is the one the target left), and its promise settles
  as what the target handed back: it is fulfilled with the very value \<open>v\<close> the target
  returned, it settles as the promise \<open>p\<close> the target returned settles, and it is rejected
  with the fault \<open>e\<close> the target threw. A returned thenable is treated as a promise: the
  wrapper's promise waits for it, and is not fulfilled with the thenable itself.
\<close>

theorem withValidation_valid_input:
  assumes "safeParse schema x (st w) = (Inr (SafeParseSuccess d), s1)"
  shows "(func d s1 = (Return (Plain v), s2) \<and> \<not> is_thenable v \<longrightarrow>
            withValidation schema func x w =
              (Return (Promise (Fulfilled v)), \<lparr>calls = calls w @ [d], st = s2\<rparr>)) \<and>
         (func d s1 = (Return (Promise p), s2) \<longrightarrow>
            withValidation schema func x w =
              (Return (Promise p), \<lparr>calls = calls w @ [d], st = s2\<rparr>)) \<and>
         (func d s1 = (Throw e, s2) \<longrightarrow>
            withValidation schema func x w =
              (Return (Promise (Rejected e)), \<lparr>calls = calls w @ [d], st = s2\<rparr>)) \<and>
         (func d s1 = (Return (Plain v), s2) \<and> is_thenable v \<longrightarrow>
            withValidation schema func x w =
              (Return (Promise Pending), \<lparr>calls = calls w @ [d], st = s2\<rparr>))"
  using withValidation_success [OF assms, of func] by simp

theorem withValidation_valid_input_witness:
  "safeParse myServerActionSchema
       (JObject [(''name'', JString ''abcd''), (''extra'', JNull)])
       (st \<lparr>calls = [], st = []\<rparr>) =
     (Inr (SafeParseSuccess (JObject [(''name'', JString ''abcd'')])), []) \<and>
   echoAction (JObject [(''name'', JString ''abcd'')]) [] =
     (Return (Plain (JObject [(''name'', JString ''abcd'')])),
      [JObject [(''name'', JString ''abcd'')]]) \<and>
   \<not> is_thenable (JObject [(''name'', JString ''abcd'')]) \<and>
   withValidation myServerActionSchema echoAction
       (JObject [(''name'', JString ''abcd''), (''extra'', JNull)]) \<lparr>calls = [], st = []\<rparr> =
     (Return (Promise (Fulfilled (JObject [(''name'', JString ''abcd'')]))),
      \<lparr>calls = [JObject [(''name'', JString ''abcd'')]],
       st = [JObject [(''name'', JString ''abcd'')]]\<rparr>) \<and>
   myServerActionBody (JObject [(''name'', JString ''abcd'')]) [] =
     (Return (Promise (Fulfilled (JBoolean True))), [JObject [(''name'', JString ''abcd'')]]) \<and>
   withValidation myServerActionSchema myServerActionBody
       (JObject [(''name'', JString ''abcd''), (''extra'', JNull)]) \<lparr>calls = [], st = []\<rparr> =
     (Return (Promise (Fulfilled (JBoolean True))),
      \<lparr>calls = [JObject [(''name'', JString ''abcd'')]],
       st = [JObject [(''name'', JString ''abcd'')]]\<rparr>) \<and>
   failingAction (JObject [(''name'', JString ''abcd'')]) [] =
     (Throw (Thrown (JString ''failed'')), []) \<and>
   withValidation myServerActionSchema failingAction
       (JObject [(''name'', JString ''abcd''), (''extra'', JNull)]) \<lparr>calls = [], st = []\<rparr> =
     (Return (Promise (Rejected (Thrown (JString ''failed'')))),
      \<lparr>calls = [JObject [(''name'', JString ''abcd'')]], st = []\<rparr>) \<and>
   thenableAction (JObject [(''name'', JString ''abcd'')]) [] =
     (Return (Plain (JObject [(''then'', JFunction [])])), []) \<and>
   is_thenable (JObject [(''then'', JFunction [])]) \<and>
   withValidation myServerActionSchema thenableAction
       (JObject [(''name'', JString ''abcd''), (''extra'', JNull)]) \<lparr>calls = [], st = []\<rparr> =
     (Return (Promise Pending),
      \<lparr>calls = [JObject [(''name'', JString ''abcd'')]], st = []\<rparr>)"
proof -
  have h: "safeParse myServerActionSchema
       (JObject [(''name'', JString ''abcd''), (''extra'', JNull)])
       (st \<lparr>calls = [], st = []\<rparr>) =
     (Inr (SafeParseSuccess (JObject [(''name'', JString ''abcd'')])), [])"
    by (simp add: myServerActionSchema_def)
  have t1: "\<not> is_thenable (JObject [(''name'', JString ''abcd'')])"
    and t2: "is_thenable (JObject [(''then'', JFunction [])])"
    by (simp_all add: is_thenable_def)
  note inst = withValidation_valid_input [where schema = myServerActionSchema, OF h]
  show ?thesis
    using h t1 t2
      inst [where func = echoAction and v = "JObject [(''name'', JString ''abcd'')]"
              and ?s2.0 = "[JObject [(''name'', JString ''abcd'')]]"]
      inst [where func = myServerActionBody and p = "Fulfilled (JBoolean True)"
              and ?s2.0 = "[JObject [(''name'', JString ''abcd'')]]"]
      inst [where func = failingAction and e = "Thrown (JString ''failed'')" and ?s2.0 = "[]"]
      inst [where func = thenableAction and v = "JObject [(''then'', JFunction [])]"
              and ?s2.0 = "[]"]
    by (simp add: echoAction_def myServerActionBody_def failingAction_def thenableAction_def)
qed

text \<open>
  C3. The claim is that \<open>isValidationError\<close> returns a Boolean for every input. On a
  falsy input the operator \<open>&&\<close> yields the input itself: for \<open>null\<close> the function
  returns \<open>null\<close>, for \<open>undefined\<close> it returns \<open>undefined\<close>, for \<open>0\<close> it returns
  \<open>0\<close> and for the empty string the empty string; none of them is a Boolean.
\<close>

theorem isValidationError_null_is_not_boolean:
  "isValidationError JNull = Inr JNull \<and> \<not> is_boolean JNull \<and>
   isValidationError JUndefined = Inr JUndefined \<and> \<not> is_boolean JUndefined \<and>
   isValidationError (JNumber (Finite 0)) = Inr (JNumber (Finite 0)) \<and>
   isValidationError (JString []) = Inr (JString [])"
  by (simp add: isValidationError_def)

text \<open>
  C4, as it is worded, fails: the argument is of type \<open>any\<close>, and on an object whose
  \<open>isValidationError\<close> property is a getter that throws, the call throws what the getter
  throws; on one whose getter counts its reads, the call changes the counter.
\<close>

theorem isValidationError_getter_raises:
  "call_isValidationError (throwingGetter :: unit anyval) () =
     (Inl (Thrown (JString ''boom'')), ()) \<and>
   call_isValidationError countingGetter 0 = (Inr (Data (JBoolean True)), Suc 0)"
  by (simp add: call_isValidationError_def throwingGetter_def countingGetter_def)

text \<open>
  C4, amended. On every value that is data (\<open>undefined\<close>, \<open>null\<close>, a Boolean, a number,
  a string, an array, an object with data properties), in every world, a call of
  \<open>isValidationError\<close> returns a value and leaves the world as it was. On any value, a
  fault of the call is a fault of the read of the property \<open>isValidationError\<close>, and the
  call changes the world as that read does, and not at all when the value is falsy.
\<close>

theorem isValidationError_no_fault_no_effect:
  "(\<exists>r. call_isValidationError (Data v) s = (Inr r, s)) \<and>
   (fst (call_isValidationError obj s) = Inl e \<longrightarrow>
      to_boolean_any obj \<and> fst (read_property obj ''isValidationError'' s) = Inl e) \<and>
   snd (call_isValidationError obj s) =
     (if to_boolean_any obj then snd (read_property obj ''isValidationError'' s) else s)"
proof -
  have "\<exists>r. call_isValidationError (Data v) s = (Inr r, s)"
    using isValidationError_total [of v] by (auto simp: call_isValidationError_Data)
  moreover have "fst (call_isValidationError obj s) = Inl e \<longrightarrow>
      to_boolean_any obj \<and> fst (read_property obj ''isValidationError'' s) = Inl e"
    by (auto simp: call_isValidationError_def split: prod.splits sum.splits if_splits)
  moreover have "snd (call_isValidationError obj s) =
     (if to_boolean_any obj then snd (read_property obj ''isValidationError'' s) else s)"
    by (auto simp: call_isValidationError_def split: prod.splits sum.splits)
  ultimately show ?thesis by blast
qed

theorem isValidationError_no_fault_no_effect_witness:
  "fst (call_isValidationError (throwingGetter :: unit anyval) ()) =
     Inl (Thrown (JString ''boom'')) \<and>
   to_boolean_any (throwingGetter :: unit anyval) \<and>
   fst (read_property (throwingGetter :: unit anyval) ''isValidationError'' ()) =
     Inl (Thrown (JString ''boom'')) \<and>
   call_isValidationError (Data JNull) () = (Inr (Data JNull), ()) \<and>
   call_isValidationError (Data (JArray [])) () = (Inr (Data (JBoolean False)), ())"
  using isValidationError_no_fault_no_effect
    [of JNull "()" "throwingGetter :: unit anyval" "Thrown (JString ''boom'')"]
  by (simp add: call_isValidationError_def throwingGetter_def)

text \<open>
  C5. The predicate is structural: on the object \<open>{ isValidationError: true, errors: [] }\<close>,
  which no wrapped operation produced, it returns \<open>true\<close>; and every value on which it
  returns \<open>true\<close> has an \<open>isValidationError\<close> property that is the Boolean \<open>true\<close>.
\<close>

theorem isValidationError_structural:
  "isValidationError (JObject [(''isValidationError'', JBoolean True), (''errors'', JArray [])]) =
     Inr (JBoolean True) \<and>
   (isValidationError v = Inr (JBoolean True) \<longrightarrow>
      own_property v ''isValidationError'' = Some (JBoolean True))"
proof -
  have "isValidationError (JObject [(''isValidationError'', JBoolean True), (''errors'', JArray [])]) =
     Inr (JBoolean True)"
    by (simp add: isValidationError_truthy)
  moreover have "isValidationError v = Inr (JBoolean True) \<longrightarrow>
      own_property v ''isValidationError'' = Some (JBoolean True)"
    by (simp add: isValidationError_true_iff tagged_as_validation_error_def)
  ultimately show ?thesis by blast
qed

theorem isValidationError_structural_witness:
  "isValidationError (JFunction [(''isValidationError'', JBoolean True)]) = Inr (JBoolean True) \<and>
   own_property (JFunction [(''isValidationError'', JBoolean True)]) ''isValidationError'' =
     Some (JBoolean True)"
  using isValidationError_structural [of "JFunction [(''isValidationError'', JBoolean True)]"]
  by (simp add: isValidationError_truthy)

text \<open>
  C6. For every schema, target, input and world, a call of the wrapped operation returns a
  promise: it never throws synchronously and never returns a plain value. Both results
  arrive through that promise, also when the schema check and the target are synchronous:
  after a validation failure the promise is fulfilled with the validation error value,
  after a target that returned the value \<open>v\<close> it is fulfilled with \<open>v\<close>, and after a
  target that returned a promise it settles as that promise does.
\<close>

theorem withValidation_returns_promise:
  "(\<exists>p w'. withValidation schema func x w = (Return (Promise p), w')) \<and>
   (safeParse schema x (st w) = (Inr (SafeParseError (ZodError issues)), s1) \<longrightarrow>
      fst (withValidation schema func x w) =
        Return (Promise (Fulfilled (JObject [(''isValidationError'', JBoolean True),
                                             (''errors'', JArray issues)])))) \<and>
   (safeParse schema x (st w) = (Inr (SafeParseSuccess d), s1) \<and>
    func d s1 = (Return (Plain v), s2) \<and> \<not> is_thenable v \<longrightarrow>
      fst (withValidation schema func x w) = Return (Promise (Fulfilled v))) \<and>
   (safeParse schema x (st w) = (Inr (SafeParseSuccess d), s1) \<and>
    func d s1 = (Return (Promise q), s2) \<longrightarrow>
      fst (withValidation schema func x w) = Return (Promise q))"
proof -
  have "\<exists>p w'. withValidation schema func x w = (Return (Promise p), w')"
    by (simp add: withValidation_def async_def split: prod.split)
  moreover have "safeParse schema x (st w) = (Inr (SafeParseError (ZodError issues)), s1) \<longrightarrow>
      fst (withValidation schema func x w) =
        Return (Promise (Fulfilled (JObject [(''isValidationError'', JBoolean True),
                                             (''errors'', JArray issues)])))"
    by (simp add: withValidation_failure)
  moreover have "safeParse schema x (st w) = (Inr (SafeParseSuccess d), s1) \<and>
    func d s1 = (Return (Plain v), s2) \<and> \<not> is_thenable v \<longrightarrow>
      fst (withValidation schema func x w) = Return (Promise (Fulfilled v))"
    by (simp add: withValidation_success)
  moreover have "safeParse schema x (st w) = (Inr (SafeParseSuccess d), s1) \<and>
    func d s1 = (Return (Promise q), s2) \<longrightarrow>
      fst (withValidation schema func x w) = Return (Promise q)"
    by (simp add: withValidation_success)
  ultimately show ?thesis by blast
qed

theorem withValidation_returns_promise_witness:
  "safeParse myServerActionSchema (JObject [(''name'', JString ''ab'')])
       (st \<lparr>calls = [], st = []\<rparr>) =
     (Inr (SafeParseError
        (ZodError [issue ''String must contain at least 4 character(s)''])), []) \<and>
   fst (withValidation myServerActionSchema echoAction (JObject [(''name'', JString ''ab'')])
          \<lparr>calls = [], st = []\<rparr>) =
     Return (Promise (Fulfilled (JObject
       [(''isValidationError'', JBoolean True),
        (''errors'', JArray [issue ''String must contain at least 4 character(s)''])]))) \<and>
   safeParse myServerActionSchema (JObject [(''name'', JString ''abcde'')])
       (st \<lparr>calls = [], st = []\<rparr>) =
     (Inr (SafeParseSuccess (JObject [(''name'', JString ''abcde'')])), []) \<and>
   echoAction (JObject [(''name'', JString ''abcde'')]) [] =
     (Return (Plain (JObject [(''name'', JString ''abcde'')])),
      [JObject [(''name'', JString ''abcde'')]]) \<and>
   \<not> is_thenable (JObject [(''name'', JString ''abcde'')]) \<and>
   fst (withValidation myServerActionSchema echoAction (JObject [(''name'', JString ''abcde'')])
          \<lparr>calls = [], st = []\<rparr>) =
     Return (Promise (Fulfilled (JObject [(''name'', JString ''abcde'')]))) \<and>
   myServerActionBody (JObject [(''name'', JString ''abcde'')]) [] =
     (Return (Promise (Fulfilled (JBoolean True))), [JObject [(''name'', JString ''abcde'')]]) \<and>
   fst (withValidation myServerActionSchema myServerActionBody
          (JObject [(''name'', JString ''abcde'')]) \<lparr>calls = [], st = []\<rparr>) =
     Return (Promise (Fulfilled (JBoolean True)))"
  using
    withValidation_returns_promise
      [where schema = myServerActionSchema and func = echoAction
         and x = "JObject [(''name'', JString ''ab'')]" and w = "\<lparr>calls = [], st = []\<rparr>"
         and issues = "[issue ''String must contain at least 4 character(s)'']"
         and ?s1.0 = "[]"]
    withValidation_returns_promise
      [where schema = myServerActionSchema and func = echoAction
         and x = "JObject [(''name'', JString ''abcde'')]" and w = "\<lparr>calls = [], st = []\<rparr>"
         and d = "JObject [(''name'', JString ''abcde'')]" and ?s1.0 = "[]"
         and v = "JObject [(''name'', JString ''abcde'')]"
         and ?s2.0 = "[JObject [(''name'', JString ''abcde'')]]"]
    withValidation_returns_promise
      [where schema = myServerActionSchema and func = myServerActionBody
         and x = "JObject [(''name'', JString ''abcde'')]" and w = "\<lparr>calls = [], st = []\<rparr>"
         and d = "JObject [(''name'', JString ''abcde'')]" and ?s1.0 = "[]"
         and q = "Fulfilled (JBoolean True)"
         and ?s2.0 = "[JObject [(''name'', JString ''abcde'')]]"]
  by (simp add: myServerActionSchema_def echoAction_def myServerActionBody_def is_thenable_def)

text \<open>
  C7. When the validator throws the fault \<open>e\<close>, the wrapped operation neither catches nor
  translates it: its promise is rejected with \<open>e\<close> itself and the target is not invoked.
  The wrapper has no fault of its own: whenever its promise is rejected with a fault, the
  validator threw that fault, or the target, invoked on the validated output, threw it or
  returned a promise rejected with it.
\<close>

theorem withValidation_validator_fault:
  "(safeParse schema x (st w) = (Inl e, s1) \<longrightarrow>
      withValidation schema func x w =
        (Return (Promise (Rejected e)), \<lparr>calls = calls w, st = s1\<rparr>)) \<and>
   (fst (withValidation schema func x w) = Return (Promise (Rejected e')) \<longrightarrow>
      fst (safeParse schema x (st w)) = Inl e' \<or>
      (\<exists>d s1. safeParse schema x (st w) = (Inr (SafeParseSuccess d), s1) \<and>
               resolve (fst (func d s1)) = Rejected e'))"
proof -
  have "fst (safeParse schema x (st w)) = Inl e' \<or>
      (\<exists>d s1. safeParse schema x (st w) = (Inr (SafeParseSuccess d), s1) \<and>
               resolve (fst (func d s1)) = Rejected e')"
    if rej: "fst (withValidation schema func x w) = Return (Promise (Rejected e'))"
  proof (cases "safeParse schema x (st w)")
    case (Pair res s1)
    show ?thesis
    proof (cases res)
      case (Inl e0)
      with Pair rej show ?thesis by (simp add: withValidation_fault)
    next
      case (Inr zr)
      show ?thesis
      proof (cases zr)
        case (SafeParseSuccess d)
        obtain r s2 where f: "func d s1 = (r, s2)" by (cases "func d s1")
        from Pair Inr SafeParseSuccess f rej show ?thesis
          by (simp add: withValidation_success)
      next
        case (SafeParseError err)
        with Pair Inr rej show ?thesis by (simp add: withValidation_failure)
      qed
    qed
  qed
  then show ?thesis by (simp add: withValidation_fault)
qed

theorem withValidation_validator_fault_witness:
  "safeParse (brokenSchema (Thrown (JString ''malformed schema''))) JNull
       (st \<lparr>calls = [], st = []\<rparr>) = (Inl (Thrown (JString ''malformed schema'')), []) \<and>
   withValidation (brokenSchema (Thrown (JString ''malformed schema''))) myServerActionBody JNull
       \<lparr>calls = [], st = []\<rparr> =
     (Return (Promise (Rejected (Thrown (JString ''malformed schema'')))),
      \<lparr>calls = [], st = []\<rparr>) \<and>
   fst (safeParse (brokenSchema (Thrown (JString ''malformed schema''))) JNull
       (st \<lparr>calls = [], st = []\<rparr>)) = Inl (Thrown (JString ''malformed schema''))"
  using withValidation_validator_fault
    [of "brokenSchema (Thrown (JString ''malformed schema''))" JNull "\<lparr>calls = [], st = []\<rparr>"
        "Thrown (JString ''malformed schema'')" "[]" myServerActionBody
        "Thrown (JString ''malformed schema'')"]
  by (simp add: brokenSchema_def)



text \<open>
  C9. When the validator reports a failure for the input, the value the wrapped
  operation's promise is fulfilled with is classified by \<open>isValidationError\<close> as a
  validation error: the predicate returns \<open>true\<close> on it.
\<close>

theorem withValidation_error_roundtrip:
  assumes "safeParse schema x (st w) = (Inr (SafeParseError err), s1)"
  shows "\<exists>v w'. withValidation schema func x w = (Return (Promise (Fulfilled v)), w') \<and>
                isValidationError v = Inr (JBoolean True)"
  using withValidation_failure [OF assms, of func] by (simp add: isValidationError_truthy)

theorem withValidation_error_roundtrip_witness:
  "safeParse myServerActionSchema (JObject [(''name'', JNumber (Finite 7))])
       (st \<lparr>calls = [], st = []\<rparr>) =
     (Inr (SafeParseError (ZodError [issue ''Required''])), []) \<and>
   (\<exists>v w'. withValidation myServerActionSchema myServerActionBody
              (JObject [(''name'', JNumber (Finite 7))]) \<lparr>calls = [], st = []\<rparr> =
              (Return (Promise (Fulfilled v)), w') \<and>
           isValidationError v = Inr (JBoolean True))"
proof -
  have h: "safeParse myServerActionSchema (JObject [(''name'', JNumber (Finite 7))])
       (st \<lparr>calls = [], st = []\<rparr>) =
     (Inr (SafeParseError (ZodError [issue ''Required''])), [])"
    by (simp add: myServerActionSchema_def)
  show ?thesis
    using h withValidation_error_roundtrip [OF h, of myServerActionBody] by simp
qed

text \<open>
  C10. On every truthy value whose \<open>isValidationError\<close> property reads as the Boolean
  \<open>true\<close> the predicate returns \<open>true\<close>, whatever its other properties are; and on an
  object the result is the same when every property but \<open>isValidationError\<close> is removed,
  so that neither the presence nor the contents of \<open>errors\<close> matter.
\<close>

theorem isValidationError_ignores_errors_field:
  "(to_boolean obj \<and> get_prop obj ''isValidationError'' = Inr (JBoolean True) \<longrightarrow>
      isValidationError obj = Inr (JBoolean True)) \<and>
   isValidationError (JObject (filter (\<lambda>p. fst p = ''isValidationError'') ps)) =
     isValidationError (JObject ps)"
  by (simp add: isValidationError_def map_of_filter_key)

theorem isValidationError_ignores_errors_field_witness:
  "to_boolean (JObject [(''isValidationError'', JBoolean True)]) \<and>
   get_prop (JObject [(''isValidationError'', JBoolean True)]) ''isValidationError'' =
     Inr (JBoolean True) \<and>
   \<not> has_type_ValidationError (JObject [(''isValidationError'', JBoolean True)]) \<and>
   isValidationError (JObject [(''isValidationError'', JBoolean True)]) = Inr (JBoolean True) \<and>
   \<not> has_type_ValidationError
       (JObject [(''errors'', JString ''none''), (''isValidationError'', JBoolean True)]) \<and>
   isValidationError
       (JObject [(''errors'', JString ''none''), (''isValidationError'', JBoolean True)]) =
     Inr (JBoolean True)"
  using isValidationError_ignores_errors_field
    [of "JObject [(''isValidationError'', JBoolean True)]"]
    isValidationError_ignores_errors_field
    [of "JObject [(''errors'', JString ''none''), (''isValidationError'', JBoolean True)]"]
  by (simp add: has_type_ValidationError_def)

end
